theory Spec2Isabelle
  imports Main
begin

section \<open>The Maybe container of monads.py\<close>

text \<open>
  The program defines two classes, \<open>Just\<close> and \<open>Nothing\<close>, with the same methods
  \<open>map\<close> and \<open>bind\<close>, and Python picks the method by the class of the receiver. The two
  classes are the two constructors of one datatype; each method is a definition of its
  own, named after its class, and the choice of the method is a case distinction on the
  receiver (\<open>Maybe_map\<close>, \<open>Maybe_bind\<close>).

  A function handed to \<open>map\<close> or \<open>bind\<close> is any Python callable: it may do more than
  return a value (count its calls, write a log). A callable is therefore a function that
  takes its argument and the state of the world and returns its result with the new state.
  Whether a method invokes its argument is then visible: a method that returns the state
  it was given, for every callable whatsoever, has not called it. Callables that raise are
  outside this model.
\<close>

datatype 'a Maybe = Just 'a | Nothing

type_synonym ('a, 'r, 's) callable = "'a \<Rightarrow> 's \<Rightarrow> 'r \<times> 's"

text \<open>A function of the program that has no effect, used as a callable.\<close>

definition pure_call :: "('a \<Rightarrow> 'r) \<Rightarrow> ('a, 'r, 's) callable" where
  "pure_call g = (\<lambda>x s. (g x, s))"

text \<open>
  Evaluation order of a nested expression: \<open>e\<close> is evaluated first, then \<open>k\<close> is applied to
  its result in the state \<open>e\<close> has left. It is the reading of \<open>e.bind(g)\<close> where \<open>e\<close> is
  itself a call, and of the body of \<open>lambda x: f(x).bind(g)\<close>.
\<close>

definition and_then :: "('s \<Rightarrow> 'r \<times> 's) \<Rightarrow> ('r, 't, 's) callable \<Rightarrow> 's \<Rightarrow> 't \<times> 's" where
  "and_then e k s = (case e s of (r, s') \<Rightarrow> k r s')"

text \<open>\<open>Just.map\<close>: \<open>return Just(f(self.value))\<close>.\<close>

definition Just_map :: "'a \<Rightarrow> ('a, 'b, 's) callable \<Rightarrow> 's \<Rightarrow> 'b Maybe \<times> 's" where
  "Just_map v f s = (case f v s of (y, s') \<Rightarrow> (Just y, s'))"

text \<open>\<open>Just.bind\<close>: \<open>return f(self.value)\<close>.\<close>

definition Just_bind :: "'a \<Rightarrow> ('a, 'r, 's) callable \<Rightarrow> 's \<Rightarrow> 'r \<times> 's" where
  "Just_bind v f s = f v s"

text \<open>\<open>Nothing.map\<close>: \<open>return Nothing()\<close>.\<close>

definition Nothing_map :: "('a, 'b, 's) callable \<Rightarrow> 's \<Rightarrow> 'c Maybe \<times> 's" where
  "Nothing_map f s = (Nothing, s)"

text \<open>\<open>Nothing.bind\<close>: \<open>return Nothing()\<close>.\<close>

definition Nothing_bind :: "('a, 'r, 's) callable \<Rightarrow> 's \<Rightarrow> 'c Maybe \<times> 's" where
  "Nothing_bind f s = (Nothing, s)"

text \<open>\<open>m.map(f)\<close> and \<open>m.bind(f)\<close> on a receiver that is a \<open>Just\<close> or a \<open>Nothing\<close>.\<close>

fun Maybe_map :: "'a Maybe \<Rightarrow> ('a, 'b, 's) callable \<Rightarrow> 's \<Rightarrow> 'b Maybe \<times> 's" where
  "Maybe_map (Just v) f s = Just_map v f s"
| "Maybe_map Nothing f s = Nothing_map f s"

fun Maybe_bind :: "'a Maybe \<Rightarrow> ('a, 'b Maybe, 's) callable \<Rightarrow> 's \<Rightarrow> 'b Maybe \<times> 's" where
  "Maybe_bind (Just v) f s = Just_bind v f s"
| "Maybe_bind Nothing f s = Nothing_bind f s"

text \<open>\<open>MaybeReturn\<close>: \<open>return Just(x)\<close>.\<close>

definition MaybeReturn :: "'a \<Rightarrow> 'a Maybe" where
  "MaybeReturn x = Just x"

text \<open>\<open>always_fail\<close>: \<open>return Nothing()\<close>.\<close>

definition always_fail :: "'a \<Rightarrow> 'b Maybe" where
  "always_fail x = Nothing"

text \<open>
  A chain \<open>m.bind(f1).bind(f2) ... .bind(fn)\<close>, as the program writes them with one, two
  and three stages: the stages run from left to right, each \<open>bind\<close> on the result of the
  one before it.
\<close>

fun bind_chain :: "'a Maybe \<Rightarrow> ('a, 'a Maybe, 's) callable list \<Rightarrow> 's \<Rightarrow> 'a Maybe \<times> 's" where
  "bind_chain m [] s = (m, s)"
| "bind_chain m (f # fs) s = (case Maybe_bind m f s of (m', s') \<Rightarrow> bind_chain m' fs s')"

section \<open>The value attribute and the methods of other objects\<close>

text \<open>
  A Python value is \<open>None\<close> (\<open>PyNone\<close>) or any other value (\<open>PyVal x\<close>). \<open>Just.__init__\<close>
  stores its argument in the attribute \<open>value\<close> as it is, and the argument may be \<open>None\<close>;
  \<open>Nothing.__init__\<close> stores \<open>None\<close> there. So the \<open>value\<close> of \<open>Just(None)\<close> and the
  \<open>value\<close> of \<open>Nothing()\<close> are the same \<open>None\<close>.
\<close>

datatype 'a pyval = PyNone | PyVal 'a

fun Maybe_value :: "'a pyval Maybe \<Rightarrow> 'a pyval" where
  "Maybe_value (Just x) = x"
| "Maybe_value Nothing = PyNone"

datatype error = KeyError | AttributeError

text \<open>
  The program has two kinds of container: instances of \<open>Just\<close> and \<open>Nothing\<close>, and built-in
  lists, for which it defines \<open>ListReturn\<close> and nothing else. Python resolves an attribute
  or a method by the class of the object and raises \<open>AttributeError\<close> when the class has
  none of that name, before any argument is looked at.
\<close>

datatype 'a pyobj = MaybeObj "'a Maybe" | ListObj "'a list"

text \<open>\<open>ListReturn\<close>: \<open>return [x]\<close>.\<close>

definition ListReturn :: "'a \<Rightarrow> 'a list" where
  "ListReturn x = [x]"

text \<open>The expression \<open>obj.value\<close>.\<close>

fun getattr_value :: "'a pyval pyobj \<Rightarrow> error + 'a pyval" where
  "getattr_value (MaybeObj m) = Inr (Maybe_value m)"
| "getattr_value (ListObj xs) = Inl AttributeError"

text \<open>
  The expression \<open>obj.bind(f)\<close>, for a callable \<open>f\<close> that returns any object. A list has no
  method \<open>bind\<close>.
\<close>

fun call_bind :: "'a pyobj \<Rightarrow> ('a, 'b pyobj, 's) callable \<Rightarrow> 's \<Rightarrow> (error + 'b pyobj) \<times> 's" where
  "call_bind (MaybeObj (Just v)) f s = (case Just_bind v f s of (r, s') \<Rightarrow> (Inr r, s'))"
| "call_bind (MaybeObj Nothing) f s =
     (case Nothing_bind f s of (r, s') \<Rightarrow> (Inr (MaybeObj r), s'))"
| "call_bind (ListObj xs) f s = (Inl AttributeError, s)"

section \<open>The directory and its lookups\<close>

text \<open>
  A person is a Python dict from field names to strings. \<open>d[k]\<close> raises \<open>KeyError\<close> when
  \<open>k\<close> is not a key of \<open>d\<close>.
\<close>

type_synonym person = "string \<rightharpoonup> string"

definition subscript :: "('k \<rightharpoonup> 'v) \<Rightarrow> 'k \<Rightarrow> error + 'v" where
  "subscript d k = (case d k of None \<Rightarrow> Inl KeyError | Some v \<Rightarrow> Inr v)"

definition directory :: "person list" where
  "directory =
     [[''glid'' \<mapsto> ''albert'', ''ufid'' \<mapsto> ''00000000'', ''name'' \<mapsto> ''Albert Alligator''],
      [''glid'' \<mapsto> ''alberta'', ''ufid'' \<mapsto> ''11111111'', ''name'' \<mapsto> ''Alberta Alligator'']]"

text \<open>
  \<open>find_ufid\<close>, the function \<open>get_user_ufid(dir)\<close> returns: the \<open>for\<close> loop over \<open>dir\<close> is
  the recursion over the list, the \<open>return\<close> inside it ends the scan.
\<close>

fun find_ufid :: "person list \<Rightarrow> string \<Rightarrow> error + string Maybe" where
  "find_ufid [] gl = Inr Nothing"
| "find_ufid (person # rest) gl =
     (case subscript person ''glid'' of
        Inl e \<Rightarrow> Inl e
      | Inr k \<Rightarrow>
          if k = gl
          then (case subscript person ''ufid'' of Inl e \<Rightarrow> Inl e | Inr u \<Rightarrow> Inr (Just u))
          else find_ufid rest gl)"

definition get_user_ufid :: "person list \<Rightarrow> string \<Rightarrow> error + string Maybe" where
  "get_user_ufid dir = (\<lambda>gl. find_ufid dir gl)"

text \<open>\<open>find_name\<close>, the function \<open>get_name(dir)\<close> returns.\<close>

fun find_name :: "person list \<Rightarrow> string \<Rightarrow> error + string Maybe" where
  "find_name [] ident = Inr Nothing"
| "find_name (person # rest) ident =
     (case subscript person ''ufid'' of
        Inl e \<Rightarrow> Inl e
      | Inr k \<Rightarrow>
          if k = ident
          then (case subscript person ''name'' of Inl e \<Rightarrow> Inl e | Inr n \<Rightarrow> Inr (Just n))
          else find_name rest ident)"

definition get_name :: "person list \<Rightarrow> string \<Rightarrow> error + string Maybe" where
  "get_name dir = (\<lambda>ident. find_name dir ident)"

definition get_user_ufid_from_directory :: "string \<Rightarrow> error + string Maybe" where
  "get_user_ufid_from_directory = get_user_ufid directory"

definition get_name_from_directory :: "string \<Rightarrow> error + string Maybe" where
  "get_name_from_directory = get_name directory"

section \<open>The contract of bind\<close>

text \<open>
  C1. On \<open>Just x\<close>, \<open>bind\<close> is the call \<open>f x\<close> itself: the same result and the same effect,
  with nothing wrapped around it (the result has the type of the results of \<open>f\<close>). On
  \<open>Nothing\<close> it returns \<open>Nothing\<close> and leaves the state as it was, whatever \<open>f\<close> is, so
  \<open>f\<close> is not invoked.
\<close>

theorem bind_contract:
  "Maybe_bind (Just x) f s = f x s \<and> Maybe_bind Nothing f s = (Nothing, s)"
  by (simp add: Just_bind_def Nothing_bind_def)


section \<open>map\<close>

text \<open>
  C10. On \<open>Just x\<close>, \<open>map\<close> returns \<open>Just\<close> of the value that the single call of \<open>f\<close> on \<open>x\<close>
  returns, and the state is the one that call has left; with a function that counts its
  calls the counter goes up by exactly one. On \<open>Nothing\<close>, \<open>map\<close> returns \<open>Nothing\<close> and
  the state is untouched for every \<open>f\<close>: \<open>f\<close> is not invoked.
\<close>

theorem map_contract:
  "Maybe_map (Just x) f s = (Just (fst (f x s)), snd (f x s))
   \<and> Maybe_map (Just x) (\<lambda>v n. (g v, Suc n)) c = (Just (g x), Suc c)
   \<and> Maybe_map Nothing f s = (Nothing, s)"
  by (simp add: Just_map_def Nothing_map_def split: prod.split)

section \<open>The monad laws\<close>

text \<open>
  C5, left identity: \<open>MaybeReturn(x).bind(f)\<close> is the call \<open>f(x)\<close>, in result and effect.
\<close>

theorem left_identity:
  "Maybe_bind (MaybeReturn x) f s = f x s"
  by (simp add: MaybeReturn_def Just_bind_def)

text \<open>
  C6, right identity: \<open>m.bind(MaybeReturn)\<close> is \<open>m\<close>, for \<open>m\<close> a \<open>Just\<close> and for \<open>m\<close>
  \<open>Nothing\<close>, and nothing else happens.
\<close>

theorem right_identity:
  "Maybe_bind m (pure_call MaybeReturn) s = (m, s)"
  by (cases m) (simp_all add: pure_call_def MaybeReturn_def Just_bind_def Nothing_bind_def)

text \<open>
  C4, associativity: \<open>m.bind(f).bind(g)\<close> and \<open>m.bind(lambda x: f(x).bind(g))\<close> give the
  same container and the same effects, for \<open>m\<close> a \<open>Just\<close> and for \<open>m\<close> \<open>Nothing\<close>.
\<close>

theorem associativity:
  "and_then (Maybe_bind m f) (\<lambda>r. Maybe_bind r g) s
     = Maybe_bind m (\<lambda>x. and_then (f x) (\<lambda>r. Maybe_bind r g)) s"
  by (cases m) (simp_all add: and_then_def Just_bind_def Nothing_bind_def)

text \<open>
  C7, map by bind: \<open>m.map(f)\<close> and \<open>m.bind(lambda x: MaybeReturn(f(x)))\<close> give the same
  container and the same effects.
\<close>

theorem map_bind_equivalence:
  "Maybe_map m f s = Maybe_bind m (\<lambda>x. and_then (f x) (pure_call MaybeReturn)) s"
  by (cases m)
    (simp_all add: and_then_def pure_call_def MaybeReturn_def Just_map_def Just_bind_def
      Nothing_map_def Nothing_bind_def)

section \<open>Chains of bind\<close>

lemma bind_chain_Nothing: "bind_chain Nothing gs s = (Nothing, s)"
  by (induction gs) (simp_all add: Nothing_bind_def)

lemma bind_chain_append:
  "bind_chain m (fs @ gs) s = (case bind_chain m fs s of (m', s') \<Rightarrow> bind_chain m' gs s')"
  by (induction fs arbitrary: m s) (simp_all split: prod.split)

text \<open>
  C8. A chain that starts from \<open>Nothing\<close> ends in \<open>Nothing\<close> with the state untouched,
  whatever its stages are. When the stages \<open>fs\<close> have produced \<open>Just x\<close> and the next
  stage \<open>f\<close>, called on \<open>x\<close>, returns \<open>Nothing\<close> and leaves the state \<open>s2\<close>, the chain
  continued by any further stages \<open>gs\<close> ends in \<open>Nothing\<close> and in that same state \<open>s2\<close>.
  More generally, once the stages \<open>fs\<close> of a chain have produced \<open>Nothing\<close>, leaving the
  state \<open>s'\<close>, the chain continued by \<open>gs\<close> ends in \<open>Nothing\<close> and in the state \<open>s'\<close>. In
  each case none of the stages \<open>gs\<close> is invoked.
\<close>

theorem absence_absorbing:
  "bind_chain Nothing gs s = (Nothing, s)
   \<and> (bind_chain m fs s = (Just x, s1) \<and> f x s1 = (Nothing, s2)
      \<longrightarrow> bind_chain m (fs @ f # gs) s = (Nothing, s2))
   \<and> (bind_chain m fs s = (Nothing, s') \<longrightarrow> bind_chain m (fs @ gs) s = (Nothing, s'))"
  by (simp add: bind_chain_Nothing bind_chain_append Just_bind_def)

text \<open>
  Three stages that log their names: the second is \<open>always_fail\<close>, and the third never
  writes to the log.
\<close>

theorem absence_absorbing_witness:
  "bind_chain (Just ''albert'') [\<lambda>x log. (Just x, log @ [''first''])] []
     = (Just ''albert'', [''first''])
   \<and> (\<lambda>x log. (always_fail x :: string Maybe, log @ [''second''])) ''albert'' [''first'']
     = (Nothing, [''first'', ''second''])
   \<and> bind_chain (Just ''albert'')
      ([\<lambda>x log. (Just x, log @ [''first''])]
        @ (\<lambda>x log. (always_fail x, log @ [''second'']))
        # [\<lambda>x log. (Just x, log @ [''third''])]) []
     = (Nothing, [''first'', ''second''])
   \<and> bind_chain (Just ''albert'')
      [\<lambda>x log. (Just x, log @ [''first'']), \<lambda>x log. (always_fail x, log @ [''second''])] []
     = (Nothing, [''first'', ''second''])
   \<and> bind_chain (Just ''albert'')
      ([\<lambda>x log. (Just x, log @ [''first'']), \<lambda>x log. (always_fail x, log @ [''second''])]
        @ [\<lambda>x log. (Just x, log @ [''third''])]) []
     = (Nothing, [''first'', ''second''])"
proof -
  let ?first = "\<lambda>(x :: string) (log :: string list). (Just x, log @ [''first''])"
  let ?second = "\<lambda>(x :: string) (log :: string list).
    (always_fail x :: string Maybe, log @ [''second''])"
  let ?third = "\<lambda>(x :: string) (log :: string list). (Just x, log @ [''third''])"
  have h1: "bind_chain (Just ''albert'') [?first] [] = (Just ''albert'', [''first''])"
    by (simp add: Just_bind_def)
  have h2: "?second ''albert'' [''first''] = (Nothing, [''first'', ''second''])"
    by (simp add: always_fail_def)
  have h3: "bind_chain (Just ''albert'') [?first, ?second] [] = (Nothing, [''first'', ''second''])"
    by (simp add: Just_bind_def Nothing_bind_def always_fail_def)
  note thm1 = absence_absorbing [where m = "Just ''albert''" and fs = "[?first]" and s = "[]"
      and x = "''albert''" and ?s1.0 = "[''first'']" and f = ?second
      and ?s2.0 = "[''first'', ''second'']" and gs = "[?third]"]
  note thm2 = absence_absorbing [where m = "Just ''albert''" and fs = "[?first, ?second]"
      and s = "[]" and s' = "[''first'', ''second'']" and gs = "[?third]"]
  from thm1 h1 h2
  have c1: "bind_chain (Just ''albert'') ([?first] @ ?second # [?third]) []
      = (Nothing, [''first'', ''second''])"
    by blast
  from thm2 h3
  have c2: "bind_chain (Just ''albert'') ([?first, ?second] @ [?third]) []
      = (Nothing, [''first'', ''second''])"
    by blast
  from h1 h2 h3 c1 c2 show ?thesis
    by blast
qed

section \<open>The lookups\<close>

lemma find_ufid_skip:
  "\<forall>q\<in>set pre. \<exists>k. q ''glid'' = Some k \<and> k \<noteq> gl
    \<Longrightarrow> find_ufid (pre @ rest) gl = find_ufid rest gl"
  by (induction pre) (auto simp: subscript_def)

lemma find_name_skip:
  "\<forall>q\<in>set pre. \<exists>k. q ''ufid'' = Some k \<and> k \<noteq> ident
    \<Longrightarrow> find_name (pre @ rest) ident = find_name rest ident"
  by (induction pre) (auto simp: subscript_def)

text \<open>
  C9. \<open>get_user_ufid dir\<close> returns \<open>Just\<close> of the \<open>ufid\<close> of the first person of \<open>dir\<close> whose
  \<open>glid\<close> is the key: the persons before it have another \<open>glid\<close>, and the persons after it
  are not looked at, so a later person with the same \<open>glid\<close> changes nothing. It returns
  \<open>Nothing\<close> when every person has another \<open>glid\<close>. \<open>get_name dir\<close> does the same with the
  fields \<open>ufid\<close> and \<open>name\<close>. The persons scanned have the key field, and the person found
  has the result field, as the records of a table do.
\<close>

theorem lookup_first_match:
  "((\<forall>q\<in>set pre. \<exists>k. q ''glid'' = Some k \<and> k \<noteq> gl) \<and> p ''glid'' = Some gl
        \<and> p ''ufid'' = Some u
      \<longrightarrow> get_user_ufid (pre @ p # post) gl = Inr (Just u))
   \<and> ((\<forall>q\<in>set dir. \<exists>k. q ''glid'' = Some k \<and> k \<noteq> gl)
      \<longrightarrow> get_user_ufid dir gl = Inr Nothing)
   \<and> ((\<forall>q\<in>set pre. \<exists>k. q ''ufid'' = Some k \<and> k \<noteq> ident) \<and> p ''ufid'' = Some ident
        \<and> p ''name'' = Some n
      \<longrightarrow> get_name (pre @ p # post) ident = Inr (Just n))
   \<and> ((\<forall>q\<in>set dir. \<exists>k. q ''ufid'' = Some k \<and> k \<noteq> ident)
      \<longrightarrow> get_name dir ident = Inr Nothing)"
proof -
  have a: "get_user_ufid (pre @ p # post) gl = Inr (Just u)"
    if "\<forall>q\<in>set pre. \<exists>k. q ''glid'' = Some k \<and> k \<noteq> gl"
      and "p ''glid'' = Some gl" and "p ''ufid'' = Some u"
    using that by (simp add: get_user_ufid_def find_ufid_skip subscript_def)
  have b: "get_user_ufid dir gl = Inr Nothing"
    if "\<forall>q\<in>set dir. \<exists>k. q ''glid'' = Some k \<and> k \<noteq> gl"
    using find_ufid_skip [OF that, of "[]"] by (simp add: get_user_ufid_def)
  have c: "get_name (pre @ p # post) ident = Inr (Just n)"
    if "\<forall>q\<in>set pre. \<exists>k. q ''ufid'' = Some k \<and> k \<noteq> ident"
      and "p ''ufid'' = Some ident" and "p ''name'' = Some n"
    using that by (simp add: get_name_def find_name_skip subscript_def)
  have d: "get_name dir ident = Inr Nothing"
    if "\<forall>q\<in>set dir. \<exists>k. q ''ufid'' = Some k \<and> k \<noteq> ident"
    using find_name_skip [OF that, of "[]"] by (simp add: get_name_def)
  from a b c d show ?thesis by blast
qed

text \<open>
  The directory of the program with one more person at its end, who shares the \<open>glid\<close>
  (for the first lookup) or the \<open>ufid\<close> (for the second) of Alberta: Alberta, who comes
  first, is the one found.
\<close>

theorem lookup_first_match_witness:
  "get_user_ufid
      (directory @ [[''glid'' \<mapsto> ''alberta'', ''ufid'' \<mapsto> ''99999999'', ''name'' \<mapsto> ''Impostor'']])
      ''alberta'' = Inr (Just ''11111111'')
   \<and> get_user_ufid directory ''nonexistent'' = Inr Nothing
   \<and> get_name
      (directory @ [[''glid'' \<mapsto> ''impostor'', ''ufid'' \<mapsto> ''11111111'', ''name'' \<mapsto> ''Impostor'']])
      ''11111111'' = Inr (Just ''Alberta Alligator'')
   \<and> get_name directory ''nonexistent'' = Inr Nothing"
proof -
  let ?albert = "[''glid'' \<mapsto> ''albert'', ''ufid'' \<mapsto> ''00000000'', ''name'' \<mapsto> ''Albert Alligator'']"
  let ?alberta = "[''glid'' \<mapsto> ''alberta'', ''ufid'' \<mapsto> ''11111111'', ''name'' \<mapsto> ''Alberta Alligator'']"
  let ?imp1 = "[''glid'' \<mapsto> ''alberta'', ''ufid'' \<mapsto> ''99999999'', ''name'' \<mapsto> ''Impostor'']"
  let ?imp2 = "[''glid'' \<mapsto> ''impostor'', ''ufid'' \<mapsto> ''11111111'', ''name'' \<mapsto> ''Impostor'']"
  have dir: "directory = [?albert, ?alberta]"
    by (simp add: directory_def)
  have pre1: "\<forall>q\<in>set [?albert]. \<exists>k. q ''glid'' = Some k \<and> k \<noteq> ''alberta''"
    by simp
  have pre2: "\<forall>q\<in>set [?albert]. \<exists>k. q ''ufid'' = Some k \<and> k \<noteq> ''11111111''"
    by simp
  have none1: "\<forall>q\<in>set directory. \<exists>k. q ''glid'' = Some k \<and> k \<noteq> ''nonexistent''"
    by (simp add: dir)
  have none2: "\<forall>q\<in>set directory. \<exists>k. q ''ufid'' = Some k \<and> k \<noteq> ''nonexistent''"
    by (simp add: dir)
  have "get_user_ufid ([?albert] @ ?alberta # [?imp1]) ''alberta'' = Inr (Just ''11111111'')"
    using lookup_first_match [where pre = "[?albert]" and p = ?alberta and post = "[?imp1]"
        and gl = "''alberta''" and u = "''11111111''"] pre1
    by simp
  moreover have "get_user_ufid directory ''nonexistent'' = Inr Nothing"
    using lookup_first_match [where dir = directory and gl = "''nonexistent''"] none1
    by blast
  moreover have "get_name ([?albert] @ ?alberta # [?imp2]) ''11111111''
      = Inr (Just ''Alberta Alligator'')"
    using lookup_first_match [where pre = "[?albert]" and p = ?alberta and post = "[?imp2]"
        and ident = "''11111111''" and n = "''Alberta Alligator''"] pre2
    by simp
  moreover have "get_name directory ''nonexistent'' = Inr Nothing"
    using lookup_first_match [where dir = directory and ident = "''nonexistent''"] none2
    by blast
  ultimately show ?thesis
    by (simp add: dir)
qed

section \<open>Reading the value of Nothing\<close>

text \<open>
  C2, as the spec states it, fails: reading \<open>value\<close> from a \<open>Nothing\<close> raises nothing and
  returns \<open>None\<close>.
\<close>

theorem absent_value_counterexample:
  "getattr_value (MaybeObj (Nothing :: string pyval Maybe)) = Inr PyNone"
  by simp

text \<open>
  C2, amended. Reading \<open>value\<close> never fails on a \<open>Just\<close> or a \<open>Nothing\<close>: from \<open>Just x\<close> it
  returns \<open>x\<close> as it was stored, \<open>None\<close> included, and from \<open>Nothing\<close> it returns the
  \<open>None\<close> that \<open>Nothing.__init__\<close> has stored. The value read from \<open>Nothing\<close> is therefore
  the value read from \<open>Just(None)\<close>: it does not tell the two apart.
\<close>

theorem value_attribute:
  "getattr_value (MaybeObj (Just x)) = Inr x
   \<and> getattr_value (MaybeObj Nothing) = Inr PyNone
   \<and> getattr_value (MaybeObj (Just PyNone)) = getattr_value (MaybeObj Nothing)"
  by simp

section \<open>Sequences\<close>

text \<open>
  C3, as the spec states it, fails: \<open>[1, 2, 3].bind(lambda x: [x, x * 10])\<close> raises
  \<open>AttributeError\<close>; it does not return \<open>[1, 10, 2, 20, 3, 30]\<close>.
\<close>

theorem list_bind_counterexample:
  "call_bind (ListObj [1, 2, 3 :: int]) (\<lambda>x s. (ListObj [x, x * 10], s)) (0 :: nat)
     = (Inl AttributeError, 0)
   \<and> call_bind (ListObj [1, 2, 3 :: int]) (\<lambda>x s. (ListObj [x, x * 10], s)) (0 :: nat)
     \<noteq> (Inr (ListObj [1, 10, 2, 20, 3, 30]), 0)"
  by simp

text \<open>
  C3, amended. For sequences the program has the unit only: \<open>ListReturn x\<close> is the list of
  the one element \<open>x\<close>. It defines no \<open>bind\<close> for them: on every list and for every
  function, \<open>bind\<close> raises \<open>AttributeError\<close> and the function is not invoked.
\<close>

theorem list_unit_only:
  "ListReturn x = [x] \<and> call_bind (ListObj xs) f s = (Inl AttributeError, s)"
  by (simp add: ListReturn_def)

end
